theory Spec2Isabelle
  imports Complex_Main "HOL-Library.Word" "HOL-Library.AList" "HOL-Library.Sublist"
begin

text \<open>
  A model of \<open>app.py\<close>, a Flask application that renders an uploaded source file as a PNG
  image: the data it keeps, its renderer \<open>generate_screenshot\<close>, its handlers \<open>index\<close> and
  \<open>download_image\<close>, and the properties of these that its specification states.
\<close>

section \<open>Data model of app.py\<close>

text \<open>
  The application keeps two pieces of state: the process-wide dictionary
  \<open>SCREENSHOT_CACHE\<close> (line 22) and the visitor's signed session cookie, of which the
  handlers use the keys \<open>cache_id\<close> and \<open>is_redirect\<close>.  A Python dictionary keeps its keys
  in insertion order, so the cache is an association list; the handlers only ever look a
  key up (\<open>map_of\<close>), store under a key (\<open>AList.update\<close>), pop a key (\<open>AList.delete\<close>) and
  clear the dictionary (\<open>[]\<close>).
\<close>

type_synonym byte = "8 word"

text \<open>A Python \<open>str\<close> obtained by decoding: the list of its code points.\<close>

type_synonym unicode = "nat list"

text \<open>
  The dictionary stored under a cache key (lines 169 to 172): key \<open>'bytes'\<close> holds
  \<open>screenshot_bytes\<close>, key \<open>'filename'\<close> holds \<open>image_filename\<close>.
\<close>

record cache_entry =
  screenshot_bytes :: "byte list"
  image_filename :: string

type_synonym cache = "(string \<times> cache_entry) list"

text \<open>
  The two session keys.  \<open>None\<close> is an absent key.  The only value the code ever stores
  under \<open>is_redirect\<close> is \<open>True\<close> (line 174).
\<close>

record session_data =
  cache_id :: "string option"
  is_redirect :: "bool option"

record app =
  session :: session_data
  SCREENSHOT_CACHE :: cache

text \<open>An uploaded part of the multipart form (werkzeug's \<open>FileStorage\<close>).\<close>

record file_storage =
  filename :: string
  stream :: "byte list"

text \<open>
  What a handler returns: a rendering of \<open>index.html\<close> with its three template
  variables, a redirect, or the attachment built in \<open>download_image\<close> (body, mimetype,
  headers).
\<close>

datatype response =
    RenderTemplate "byte list option" "string option" "string option"
  | Redirect string
  | Attachment "byte list" string "(string \<times> string) list"

text \<open>
  A reply is the response together with the messages passed to \<open>flash\<close> during the
  request, each with its category.
\<close>

record reply =
  body :: response
  flashes :: "(string \<times> string) list"

section \<open>Python library functions used by the handlers\<close>

text \<open>\<open>needle in hay\<close> on strings.\<close>

fun contains :: "string \<Rightarrow> string \<Rightarrow> bool" where
  "contains needle [] = (needle = [])"
| "contains needle (c # cs) = (prefix needle (c # cs) \<or> contains needle cs)"

text \<open>
  \<open>s.rsplit(sep, 1)\<close> for a one-character separator: the string is cut at the last
  occurrence of the separator, and is returned whole when there is none.
\<close>

definition rsplit1 :: "char \<Rightarrow> string \<Rightarrow> string list" where
  "rsplit1 sep s =
     (if sep \<in> set s
      then [rev (tl (dropWhile (\<lambda>c. c \<noteq> sep) (rev s))), rev (takeWhile (\<lambda>c. c \<noteq> sep) (rev s))]
      else [s])"

text \<open>\<open>str(n)\<close> for a non-negative integer: its decimal digits.\<close>

fun str_nat :: "nat \<Rightarrow> string" where
  "str_nat n =
     (if n < 10 then [''0123456789'' ! n]
      else str_nat (n div 10) @ [''0123456789'' ! (n mod 10)])"

declare str_nat.simps [simp del]

text \<open>
  \<open>data.decode("utf-8")\<close>: the strict decoder.  It accepts exactly the well-formed byte
  sequences of the Unicode standard (no overlong forms, no surrogates, nothing above
  U+10FFFF, no truncated sequence) and raises \<open>UnicodeDecodeError\<close>, here \<open>None\<close>, on
  anything else.
\<close>

definition continuation :: "byte \<Rightarrow> bool" where
  "continuation b = (0x80 \<le> b \<and> b \<le> 0xBF)"

definition low :: "nat \<Rightarrow> byte \<Rightarrow> nat" where
  "low m b = unat b mod m"

fun decode_utf8 :: "byte list \<Rightarrow> unicode option" where
  "decode_utf8 [] = Some []"
| "decode_utf8 (b0 # bs) =
     (if b0 < 0x80 then map_option ((#) (unat b0)) (decode_utf8 bs)
      else if 0xC2 \<le> b0 \<and> b0 \<le> 0xDF then
        (case bs of
           b1 # r \<Rightarrow>
             if continuation b1
             then map_option ((#) (low 32 b0 * 64 + low 64 b1)) (decode_utf8 r)
             else None
         | _ \<Rightarrow> None)
      else if 0xE0 \<le> b0 \<and> b0 \<le> 0xEF then
        (case bs of
           b1 # b2 # r \<Rightarrow>
             if (if b0 = 0xE0 then 0xA0 \<le> b1 \<and> b1 \<le> 0xBF
                 else if b0 = 0xED then 0x80 \<le> b1 \<and> b1 \<le> 0x9F
                 else continuation b1) \<and> continuation b2
             then map_option ((#) (low 16 b0 * 4096 + low 64 b1 * 64 + low 64 b2))
                    (decode_utf8 r)
             else None
         | _ \<Rightarrow> None)
      else if 0xF0 \<le> b0 \<and> b0 \<le> 0xF4 then
        (case bs of
           b1 # b2 # b3 # r \<Rightarrow>
             if (if b0 = 0xF0 then 0x90 \<le> b1 \<and> b1 \<le> 0xBF
                 else if b0 = 0xF4 then 0x80 \<le> b1 \<and> b1 \<le> 0x8F
                 else continuation b1) \<and> continuation b2 \<and> continuation b3
             then map_option
                    ((#) (low 8 b0 * 262144 + low 64 b1 * 4096 + low 64 b2 * 64 + low 64 b3))
                    (decode_utf8 r)
             else None
         | _ \<Rightarrow> None)
      else None)"

section \<open>The renderer\<close>

text \<open>
  Exceptions, each with its \<open>str(e)\<close>: Playwright's \<open>Error\<close>, Python's \<open>RuntimeError\<close>,
  and any other subclass of \<open>Exception\<close>.
\<close>

datatype exn = PlaywrightError string | RuntimeError string | OtherException string

fun str_exn :: "exn \<Rightarrow> string" where
  "str_exn (PlaywrightError m) = m"
| "str_exn (RuntimeError m) = m"
| "str_exn (OtherException m) = m"

text \<open>
  The headless browser is outside the program, so what it does during one call of
  \<open>generate_screenshot\<close> is an input of the model: \<open>start\<close> is the exception, if any,
  raised before the content is measured (starting Playwright, launching WebKit, opening
  the page, highlighting the code, loading the document); \<open>bounding_box\<close> is the measured
  width and height of the \<open>.my_code\<close> element, or the exception raised while measuring;
  \<open>capture\<close> is the outcome of resizing the viewport to the given width and height,
  taking the element's screenshot and closing the browser.  The bounding box is a pair of
  Python floats, modelled as reals.
\<close>

record browser =
  start :: "exn option"
  bounding_box :: "exn + real \<times> real"
  capture :: "real \<times> real \<Rightarrow> exn + byte list"

text \<open>The dictionary passed to \<open>page.set_viewport_size\<close> (lines 86 to 89).\<close>

definition viewport_size :: "real \<times> real \<Rightarrow> real \<times> real" where
  "viewport_size box = (min 1280 (fst box + 40), min 720 (snd box + 40))"

text \<open>
  The body of the \<open>try\<close> statement (lines 32 to 95), the first exception raised ending it.
\<close>

definition try_screenshot :: "browser \<Rightarrow> string \<Rightarrow> exn + byte list \<times> string" where
  "try_screenshot page fname =
     (case start page of
        Some e \<Rightarrow> Inl e
      | None \<Rightarrow>
         (case bounding_box page of
            Inl e \<Rightarrow> Inl e
          | Inr box \<Rightarrow>
             (case capture page (viewport_size box) of
                Inl e \<Rightarrow> Inl e
              | Inr screenshot \<Rightarrow>
                  Inr (screenshot, rsplit1 CHR ''.'' fname ! 0 @ ''_code_image.png''))))"

text \<open>The two \<open>except\<close> clauses (lines 96 to 101): what is raised in place of \<open>e\<close>.\<close>

fun reraise :: "exn \<Rightarrow> exn" where
  "reraise (PlaywrightError m) =
     (if contains ''Executable doesn't exist'' m
      then RuntimeError ''Playwright browser binaries are missing. Please ensure 'playwright install' is run during deployment.''
      else RuntimeError (''Failed to generate screenshot: '' @ m))"
| "reraise e = RuntimeError (''Failed to generate screenshot: '' @ str_exn e)"

text \<open>
  \<open>generate_screenshot(code_content, filename)\<close>.  The first argument of the model is
  \<open>sync_playwright\<close>: the browser run that the document built from a given text leads to.
\<close>

definition generate_screenshot ::
  "(unicode \<Rightarrow> browser) \<Rightarrow> unicode \<Rightarrow> string \<Rightarrow> exn + byte list \<times> string" where
  "generate_screenshot sync_playwright code_content fname =
     (case try_screenshot (sync_playwright code_content) fname of
        Inl e \<Rightarrow> Inl (reraise e)
      | Inr r \<Rightarrow> Inr r)"

section \<open>The request handlers\<close>

definition MAX_CONTENT_LENGTH :: nat where
  "MAX_CONTENT_LENGTH = 1 * 1024 * 1024"

text \<open>
  What one request draws from outside the program: werkzeug's \<open>secure_filename\<close>, the
  browser automation, and the text of the identifier that \<open>uuid.uuid4()\<close> returns.
\<close>

record environment =
  secure_filename :: "string \<Rightarrow> string"
  sync_playwright :: "unicode \<Rightarrow> browser"
  uuid4 :: string

text \<open>
  \<open>cache_id and cache_id in SCREENSHOT_CACHE\<close>: the key is present in the session, is not
  the empty string, and is a key of the cache.
\<close>

definition resolves :: "string option \<Rightarrow> cache \<Rightarrow> bool" where
  "resolves cid c = (case cid of None \<Rightarrow> False | Some k \<Rightarrow> k \<noteq> [] \<and> map_of c k \<noteq> None)"

text \<open>\<open>render_template("index.html")\<close> with a flashed message of category \<open>danger\<close>.\<close>

definition form_with :: "string \<Rightarrow> reply" where
  "form_with msg = \<lparr>body = RenderTemplate None None None, flashes = [(msg, ''danger'')]\<rparr>"

text \<open>The GET branch of \<open>index\<close> (lines 111 to 125).\<close>

definition index_get :: "app \<Rightarrow> reply \<times> app" where
  "index_get st =
     (let flag = (case is_redirect (session st) of None \<Rightarrow> False | Some v \<Rightarrow> v);
          st1 = st\<lparr>session := (session st)\<lparr>is_redirect := None\<rparr>\<rparr>;
          cid = cache_id (session st1)
      in if \<not> flag \<and> resolves cid (SCREENSHOT_CACHE st1) then
           (\<lparr>body = RenderTemplate None None cid, flashes = []\<rparr>,
            st1\<lparr>session := (session st1)\<lparr>cache_id := None\<rparr>, SCREENSHOT_CACHE := []\<rparr>)
         else if resolves cid (SCREENSHOT_CACHE st1) then
           (let e = the (map_of (SCREENSHOT_CACHE st1) (the cid))
            in (\<lparr>body = RenderTemplate (Some (screenshot_bytes e)) (Some (image_filename e)) cid,
                 flashes = []\<rparr>, st1))
         else (\<lparr>body = RenderTemplate None None cid, flashes = []\<rparr>, st1))"

text \<open>
  The POST branch of \<open>index\<close> (lines 128 to 182); \<open>files\<close> is \<open>request.files\<close>, whose
  lookup returns the first part of the given name.  The size of the part is the position
  of the end of its stream.  Reading the stream is taken to succeed, so that decoding can
  only fail with \<open>UnicodeDecodeError\<close> and the clause of lines 161 to 163 has no
  counterpart.  The last two cases are the clauses of lines 177 and 180.
\<close>

definition index_post ::
  "environment \<Rightarrow> (string \<times> file_storage) list \<Rightarrow> app \<Rightarrow> reply \<times> app" where
  "index_post env files st =
     (let st1 = st\<lparr>session := (session st)\<lparr>cache_id := None\<rparr>\<rparr>;
          st2 = st1\<lparr>session := (session st1)\<lparr>is_redirect := None\<rparr>\<rparr>;
          st3 = st2\<lparr>SCREENSHOT_CACHE := []\<rparr>
      in case map_of files ''code_file'' of
           None \<Rightarrow> (form_with ''No file uploaded.'', st3)
         | Some file \<Rightarrow>
             if filename file = [] then (form_with ''No file selected.'', st3)
             else if length (stream file) > MAX_CONTENT_LENGTH then
               (form_with (''File too large. Maximum size is ''
                            @ str_nat (MAX_CONTENT_LENGTH div 1024) @ '' KB.''), st3)
             else
               (let fname = secure_filename env (filename file)
                in case decode_utf8 (stream file) of
                     None \<Rightarrow>
                       (form_with ''Invalid file encoding. Please upload a UTF-8 encoded text file.'',
                        st3)
                   | Some code_content \<Rightarrow>
                       (case generate_screenshot (sync_playwright env) code_content fname of
                          Inr (png, name) \<Rightarrow>
                            (let new_id = uuid4 env;
                                 st4 = st3\<lparr>SCREENSHOT_CACHE :=
                                         AList.update new_id
                                           \<lparr>screenshot_bytes = png, image_filename = name\<rparr>
                                           (SCREENSHOT_CACHE st3)\<rparr>;
                                 st5 = st4\<lparr>session := (session st4)\<lparr>cache_id := Some new_id\<rparr>\<rparr>;
                                 st6 = st5\<lparr>session := (session st5)\<lparr>is_redirect := Some True\<rparr>\<rparr>
                             in (\<lparr>body = Redirect ''/'', flashes = []\<rparr>, st6))
                        | Inl (RuntimeError m) \<Rightarrow> (form_with m, st3)
                        | Inl e \<Rightarrow> (form_with (''Unexpected error: '' @ str_exn e), st3))))"

text \<open>
  \<open>download_image\<close> (lines 185 to 206).  Building the response from bytes and a header
  string is taken to succeed, so the clause of lines 207 to 209 has no counterpart.
\<close>

definition download_image :: "app \<Rightarrow> reply \<times> app" where
  "download_image st =
     (let cid = cache_id (session st)
      in if \<not> resolves cid (SCREENSHOT_CACHE st) then
           (\<lparr>body = Redirect ''/'',
             flashes = [(''No image available for download. Please generate an image first.'',
                         ''danger'')]\<rparr>, st)
         else
           (let screenshot_data = the (map_of (SCREENSHOT_CACHE st) (the cid));
                r = \<lparr>body = Attachment (screenshot_bytes screenshot_data) ''image/png''
                            [(''Content-Disposition'',
                              ''attachment; filename='' @ image_filename screenshot_data)],
                     flashes = []\<rparr>;
                st1 = st\<lparr>SCREENSHOT_CACHE := AList.delete (the cid) (SCREENSHOT_CACHE st)\<rparr>;
                st2 = st1\<lparr>session := (session st1)\<lparr>cache_id := None\<rparr>\<rparr>;
                st3 = st2\<lparr>session := (session st2)\<lparr>is_redirect := None\<rparr>\<rparr>
            in (r, st3)))"

text \<open>The state with no session keys and an empty cache.\<close>

abbreviation blank :: app where
  "blank \<equiv> \<lparr>session = \<lparr>cache_id = None, is_redirect = None\<rparr>, SCREENSHOT_CACHE = []\<rparr>"

section \<open>The server: one cache, one session per visitor\<close>

datatype request =
    GET_index
  | POST_index environment "(string \<times> file_storage) list"
  | GET_download

fun handle :: "request \<Rightarrow> app \<Rightarrow> reply \<times> app" where
  "handle GET_index st = index_get st"
| "handle (POST_index env files) st = index_post env files st"
| "handle GET_download st = download_image st"

text \<open>
  The process serves one request at a time.  Each visitor, a number here, has a session of
  their own; the cache is shared.  At start the cache is empty (line 22) and no visitor
  has a session.
\<close>

record server =
  cookies :: "nat \<Rightarrow> session_data"
  store :: cache

definition boot :: server where
  "boot = \<lparr>cookies = (\<lambda>_. \<lparr>cache_id = None, is_redirect = None\<rparr>), store = []\<rparr>"

definition serve :: "server \<Rightarrow> nat \<times> request \<Rightarrow> server" where
  "serve sv vr =
     (let st' = snd (handle (snd vr) \<lparr>session = cookies sv (fst vr), SCREENSHOT_CACHE = store sv\<rparr>)
      in \<lparr>cookies = (cookies sv)(fst vr := session st'), store = SCREENSHOT_CACHE st'\<rparr>)"

definition answer :: "server \<Rightarrow> nat \<times> request \<Rightarrow> reply" where
  "answer sv vr =
     fst (handle (snd vr) \<lparr>session = cookies sv (fst vr), SCREENSHOT_CACHE = store sv\<rparr>)"

section \<open>Sample inputs\<close>

text \<open>
  A browser run that measures a box of 2000 by 100 pixels and captures two bytes when the
  viewport is 1280 by 140.
\<close>

definition wide_page :: browser where
  "wide_page =
     \<lparr>start = None, bounding_box = Inr (2000, 100),
      capture = (\<lambda>v. if v = (1280, 140) then Inr [0x89, 0x50]
                     else Inl (PlaywrightError ''unexpected viewport''))\<rparr>"

text \<open>
  A cached image, and three states of one visitor: just redirected after an upload, the
  same after the flag has been consumed, and holding an identifier the cache has lost.
\<close>

definition hello_entry :: cache_entry where
  "hello_entry = \<lparr>screenshot_bytes = [0x89, 0x50], image_filename = ''hello_code_image.png''\<rparr>"

definition shown :: app where
  "shown = \<lparr>session = \<lparr>cache_id = Some ''1b4e'', is_redirect = Some True\<rparr>,
            SCREENSHOT_CACHE = [(''1b4e'', hello_entry)]\<rparr>"

definition reloaded :: app where
  "reloaded = \<lparr>session = \<lparr>cache_id = Some ''1b4e'', is_redirect = None\<rparr>,
            SCREENSHOT_CACHE = [(''1b4e'', hello_entry)]\<rparr>"

definition stale :: app where
  "stale = \<lparr>session = \<lparr>cache_id = Some ''1b4e'', is_redirect = Some True\<rparr>,
            SCREENSHOT_CACHE = []\<rparr>"

text \<open>
  An environment whose sanitizer only drops slashes, whose browser is \<open>wide_page\<close> and
  whose next identifier is \<open>1b4e\<close>; and uploaded parts: a small Python file, a part with
  no filename, a Latin-1 file (its last byte is no UTF-8 sequence), a binary file of
  1 MiB and one byte, and a text file of exactly 1 MiB.
\<close>

definition plain_env :: environment where
  "plain_env =
     \<lparr>secure_filename = filter (\<lambda>c. c \<noteq> CHR ''/''), sync_playwright = (\<lambda>_. wide_page),
      uuid4 = ''1b4e''\<rparr>"

definition hello_file :: file_storage where
  "hello_file = \<lparr>filename = ''hello.py'', stream = [0x70, 0x72, 0x69, 0x6E, 0x74]\<rparr>"





text \<open>
  Two environments whose browser fails: one where the WebKit executable is missing, one
  where the content element has no bounding box, so that subscripting it raises a
  \<open>TypeError\<close>.
\<close>

definition unprovisioned_env :: environment where
  "unprovisioned_env =
     \<lparr>secure_filename = filter (\<lambda>c. c \<noteq> CHR ''/''),
      sync_playwright = (\<lambda>_.
        \<lparr>start = Some (PlaywrightError
                   ''BrowserType.launch: Executable doesn't exist at /ms-playwright/webkit/pw_run.sh''),
         bounding_box = Inr (0, 0), capture = (\<lambda>_. Inr [])\<rparr>),
      uuid4 = ''1b4e''\<rparr>"

definition hidden_env :: environment where
  "hidden_env =
     \<lparr>secure_filename = filter (\<lambda>c. c \<noteq> CHR ''/''),
      sync_playwright = (\<lambda>_.
        \<lparr>start = None,
         bounding_box = Inl (OtherException '''NoneType' object is not subscriptable''),
         capture = (\<lambda>_. Inr [])\<rparr>),
      uuid4 = ''1b4e''\<rparr>"

text \<open>
  Parts whose filename is made of slashes only, has no dot, or has two dots; and a second
  environment, with another identifier and another browser run.
\<close>

definition slash_file :: file_storage where
  "slash_file = \<lparr>filename = ''///'', stream = [0x70, 0x72, 0x69, 0x6E, 0x74]\<rparr>"

definition make_file :: file_storage where
  "make_file = \<lparr>filename = ''Makefile'', stream = [0x61, 0x6C, 0x6C, 0x3A]\<rparr>"

definition tar_file :: file_storage where
  "tar_file = \<lparr>filename = ''app.tar.gz'', stream = [0x61]\<rparr>"

definition second_env :: environment where
  "second_env =
     \<lparr>secure_filename = filter (\<lambda>c. c \<noteq> CHR ''/''),
      sync_playwright = (\<lambda>_.
        \<lparr>start = None, bounding_box = Inr (300, 900), capture = (\<lambda>_. Inr [0x89, 0x4E, 0x47])\<rparr>),
      uuid4 = ''9f3c''\<rparr>"

section \<open>Properties of the library functions\<close>

lemma contains_iff: "contains n h \<longleftrightarrow> (\<exists>p s. h = p @ n @ s)"
proof (induction h)
  case Nil
  then show ?case by auto
next
  case (Cons c cs)
  show ?case
  proof
    assume "contains n (c # cs)"
    then consider "prefix n (c # cs)" | "contains n cs" by auto
    then show "\<exists>p s. c # cs = p @ n @ s"
    proof cases
      case 1
      then obtain s where "c # cs = n @ s" by (auto simp: prefix_def)
      then have "c # cs = [] @ n @ s" by simp
      then show ?thesis by blast
    next
      case 2
      with Cons.IH obtain p s where "cs = p @ n @ s" by blast
      then have "c # cs = (c # p) @ n @ s" by simp
      then show ?thesis by blast
    qed
  next
    assume "\<exists>p s. c # cs = p @ n @ s"
    then obtain p s where ps: "c # cs = p @ n @ s" by blast
    show "contains n (c # cs)"
    proof (cases p)
      case Nil
      with ps have "prefix n (c # cs)" by (simp add: prefix_def)
      then show ?thesis by simp
    next
      case (Cons a p')
      with ps have "cs = p' @ n @ s" by simp
      with Cons.IH have "contains n cs" by blast
      then show ?thesis by simp
    qed
  qed
qed

lemma rsplit1_last:
  assumes "sep \<notin> set b"
  shows "rsplit1 sep (a @ sep # b) = [a, b]"
proof -
  from assms have all: "\<forall>c \<in> set (rev b). c \<noteq> sep" by auto
  then have d: "dropWhile (\<lambda>c. c \<noteq> sep) (rev b @ sep # rev a) = sep # rev a"
    by (simp add: dropWhile_append)
  from all have t: "takeWhile (\<lambda>c. c \<noteq> sep) (rev b @ sep # rev a) = rev b"
    by (simp add: takeWhile_append)
  show ?thesis
    using d t by (simp add: rsplit1_def)
qed

lemma rsplit1_none: "sep \<notin> set s \<Longrightarrow> rsplit1 sep s = [s]"
  by (simp add: rsplit1_def)

lemma rsplit1_stem:
  "(\<exists>ext. s = rsplit1 sep s ! 0 @ sep # ext \<and> sep \<notin> set ext)
   \<or> (s = rsplit1 sep s ! 0 \<and> sep \<notin> set s)"
proof (cases "sep \<in> set s")
  case True
  then obtain a b where "s = a @ sep # b" "sep \<notin> set b"
    using split_list_last by fastforce
  then show ?thesis by (auto simp: rsplit1_last)
next
  case False
  then show ?thesis by (simp add: rsplit1_none)
qed

section \<open>The renderer's viewport\<close>

text \<open>
  C9.  When the browser has started and measured the content element as \<open>w\<close> by \<open>h\<close>,
  \<open>generate_screenshot\<close> captures the element under a viewport of width
  \<open>min 1280 (w + 40)\<close> and height \<open>min 720 (h + 40)\<close>: the content plus a margin of 40,
  never more than 1280 by 720, and exactly the content plus 40 where that fits.
\<close>

theorem viewport_clamping:
  assumes "start (pw text) = None" and "bounding_box (pw text) = Inr (w, h)"
  shows "generate_screenshot pw text f =
           (case capture (pw text) (min 1280 (w + 40), min 720 (h + 40)) of
              Inl e \<Rightarrow> Inl (reraise e)
            | Inr png \<Rightarrow> Inr (png, rsplit1 CHR ''.'' f ! 0 @ ''_code_image.png''))
         \<and> viewport_size (w, h) = (min 1280 (w + 40), min 720 (h + 40))
         \<and> fst (viewport_size (w, h)) \<le> 1280 \<and> snd (viewport_size (w, h)) \<le> 720
         \<and> (w + 40 \<le> 1280 \<longrightarrow> fst (viewport_size (w, h)) = w + 40)
         \<and> (h + 40 \<le> 720 \<longrightarrow> snd (viewport_size (w, h)) = h + 40)"
  using assms
  by (simp add: generate_screenshot_def try_screenshot_def viewport_size_def split: sum.split)

theorem viewport_clamping_witness:
  "start wide_page = None \<and> bounding_box wide_page = Inr (2000, 100)
   \<and> generate_screenshot (\<lambda>_. wide_page) [] ''a.py'' = Inr ([0x89, 0x50], ''a_code_image.png'')
   \<and> viewport_size (2000, 100) = (1280, 140)
   \<and> (100 + 40 \<le> (720::real) \<and> snd (viewport_size (2000, 100)) = 100 + 40)"
  using viewport_clamping [of "\<lambda>_. wide_page" "[]" 2000 100 "''a.py''"]
  by (simp add: wide_page_def rsplit1_def)

section \<open>Displaying and downloading\<close>

text \<open>
  C2.  A GET of \<open>/\<close> always removes \<open>is_redirect\<close> from the session.  When the flag was not
  set and the session's \<open>cache_id\<close> resolves in the cache, the handler removes \<open>cache_id\<close>,
  empties the whole cache and renders the form without an image; when the flag was set and
  \<open>cache_id\<close> resolves, it renders the entry's bytes and filename and leaves the cache as it
  is; in every other case it renders the form without an image and changes nothing but the
  flag.  Each case gives the whole state after the request, so nothing else is modified.
  An identifier resolves when it is present, non-empty and a key of the cache.
\<close>

theorem index_get_branches:
  "is_redirect (session (snd (index_get st))) = None
   \<and> (is_redirect (session st) \<noteq> Some True \<and> cache_id (session st) = Some k \<and> k \<noteq> []
        \<and> map_of (SCREENSHOT_CACHE st) k = Some e
      \<longrightarrow> index_get st =
            (\<lparr>body = RenderTemplate None None (Some k), flashes = []\<rparr>,
             \<lparr>session = \<lparr>cache_id = None, is_redirect = None\<rparr>, SCREENSHOT_CACHE = []\<rparr>))
   \<and> (is_redirect (session st) = Some True \<and> cache_id (session st) = Some k \<and> k \<noteq> []
        \<and> map_of (SCREENSHOT_CACHE st) k = Some e
      \<longrightarrow> index_get st =
            (\<lparr>body = RenderTemplate (Some (screenshot_bytes e)) (Some (image_filename e)) (Some k),
              flashes = []\<rparr>,
             \<lparr>session = \<lparr>cache_id = Some k, is_redirect = None\<rparr>,
              SCREENSHOT_CACHE = SCREENSHOT_CACHE st\<rparr>))
   \<and> (\<not> resolves (cache_id (session st)) (SCREENSHOT_CACHE st)
      \<longrightarrow> index_get st =
            (\<lparr>body = RenderTemplate None None (cache_id (session st)), flashes = []\<rparr>,
             \<lparr>session = \<lparr>cache_id = cache_id (session st), is_redirect = None\<rparr>,
              SCREENSHOT_CACHE = SCREENSHOT_CACHE st\<rparr>))
   \<and> (resolves (cache_id (session st)) (SCREENSHOT_CACHE st)
        \<longleftrightarrow> (\<exists>k. cache_id (session st) = Some k \<and> k \<noteq> [] \<and> k \<in> fst ` set (SCREENSHOT_CACHE st)))"
proof -
  obtain s c where st: "st = \<lparr>session = s, SCREENSHOT_CACHE = c\<rparr>" by (cases st) auto
  obtain ci ir where s: "s = \<lparr>cache_id = ci, is_redirect = ir\<rparr>" by (cases s) auto
  have a: "is_redirect (session (snd (index_get st))) = None"
    by (simp add: index_get_def Let_def st s)
  have b: "is_redirect (session st) \<noteq> Some True \<and> cache_id (session st) = Some k \<and> k \<noteq> []
        \<and> map_of (SCREENSHOT_CACHE st) k = Some e
      \<longrightarrow> index_get st =
            (\<lparr>body = RenderTemplate None None (Some k), flashes = []\<rparr>,
             \<lparr>session = \<lparr>cache_id = None, is_redirect = None\<rparr>, SCREENSHOT_CACHE = []\<rparr>)"
    by (cases ir) (auto simp: index_get_def Let_def st s resolves_def)
  have c: "is_redirect (session st) = Some True \<and> cache_id (session st) = Some k \<and> k \<noteq> []
        \<and> map_of (SCREENSHOT_CACHE st) k = Some e
      \<longrightarrow> index_get st =
            (\<lparr>body = RenderTemplate (Some (screenshot_bytes e)) (Some (image_filename e)) (Some k),
              flashes = []\<rparr>,
             \<lparr>session = \<lparr>cache_id = Some k, is_redirect = None\<rparr>,
              SCREENSHOT_CACHE = SCREENSHOT_CACHE st\<rparr>)"
    by (auto simp: index_get_def Let_def st s resolves_def)
  have d: "\<not> resolves (cache_id (session st)) (SCREENSHOT_CACHE st)
      \<longrightarrow> index_get st =
            (\<lparr>body = RenderTemplate None None (cache_id (session st)), flashes = []\<rparr>,
             \<lparr>session = \<lparr>cache_id = cache_id (session st), is_redirect = None\<rparr>,
              SCREENSHOT_CACHE = SCREENSHOT_CACHE st\<rparr>)"
    by (simp add: index_get_def Let_def st s)
  have e: "resolves (cache_id (session st)) (SCREENSHOT_CACHE st)
        \<longleftrightarrow> (\<exists>k. cache_id (session st) = Some k \<and> k \<noteq> [] \<and> k \<in> fst ` set (SCREENSHOT_CACHE st))"
    by (cases ci) (auto simp: resolves_def st s map_of_eq_None_iff)
  from a b c d e show ?thesis by blast
qed

theorem index_get_branches_witness:
  "index_get reloaded =
     (\<lparr>body = RenderTemplate None None (Some ''1b4e''), flashes = []\<rparr>,
      \<lparr>session = \<lparr>cache_id = None, is_redirect = None\<rparr>, SCREENSHOT_CACHE = []\<rparr>)
   \<and> index_get shown =
     (\<lparr>body = RenderTemplate (Some [0x89, 0x50]) (Some ''hello_code_image.png'') (Some ''1b4e''),
       flashes = []\<rparr>,
      \<lparr>session = \<lparr>cache_id = Some ''1b4e'', is_redirect = None\<rparr>,
       SCREENSHOT_CACHE = [(''1b4e'', hello_entry)]\<rparr>)
   \<and> \<not> resolves (cache_id (session stale)) (SCREENSHOT_CACHE stale)
   \<and> index_get stale =
     (\<lparr>body = RenderTemplate None None (Some ''1b4e''), flashes = []\<rparr>,
      \<lparr>session = \<lparr>cache_id = Some ''1b4e'', is_redirect = None\<rparr>, SCREENSHOT_CACHE = []\<rparr>)"
  using index_get_branches [of reloaded "''1b4e''" hello_entry]
        index_get_branches [of shown "''1b4e''" hello_entry]
        index_get_branches [of stale]
  by (simp add: reloaded_def shown_def stale_def hello_entry_def resolves_def)

text \<open>
  C3.  A GET of \<open>/download\<close> whose session \<open>cache_id\<close> does not resolve flashes the notice
  that no image is available and redirects to the form, changing nothing.  Otherwise the
  reply is the cached bytes as an attachment of type \<open>image/png\<close> under the stored
  filename; the entry is deleted and both session keys are removed, so that a second
  download right after it gets the notice.
\<close>

theorem download_once:
  "(\<not> resolves (cache_id (session st)) (SCREENSHOT_CACHE st)
      \<longrightarrow> download_image st =
            (\<lparr>body = Redirect ''/'',
              flashes = [(''No image available for download. Please generate an image first.'',
                          ''danger'')]\<rparr>, st))
   \<and> (cache_id (session st) = Some k \<and> k \<noteq> [] \<and> map_of (SCREENSHOT_CACHE st) k = Some e
      \<longrightarrow> download_image st =
            (\<lparr>body = Attachment (screenshot_bytes e) ''image/png''
                      [(''Content-Disposition'', ''attachment; filename='' @ image_filename e)],
              flashes = []\<rparr>,
             \<lparr>session = \<lparr>cache_id = None, is_redirect = None\<rparr>,
              SCREENSHOT_CACHE = AList.delete k (SCREENSHOT_CACHE st)\<rparr>)
          \<and> map_of (SCREENSHOT_CACHE (snd (download_image st))) k = None
          \<and> fst (download_image (snd (download_image st))) =
              \<lparr>body = Redirect ''/'',
               flashes = [(''No image available for download. Please generate an image first.'',
                           ''danger'')]\<rparr>)
   \<and> (resolves (cache_id (session st)) (SCREENSHOT_CACHE st)
        \<longleftrightarrow> (\<exists>k. cache_id (session st) = Some k \<and> k \<noteq> [] \<and> k \<in> fst ` set (SCREENSHOT_CACHE st)))"
proof -
  obtain s c where st: "st = \<lparr>session = s, SCREENSHOT_CACHE = c\<rparr>" by (cases st) auto
  obtain ci ir where s: "s = \<lparr>cache_id = ci, is_redirect = ir\<rparr>" by (cases s) auto
  have a: "\<not> resolves (cache_id (session st)) (SCREENSHOT_CACHE st)
      \<longrightarrow> download_image st =
            (\<lparr>body = Redirect ''/'',
              flashes = [(''No image available for download. Please generate an image first.'',
                          ''danger'')]\<rparr>, st)"
    by (simp add: download_image_def Let_def)
  have b1: "download_image st =
            (\<lparr>body = Attachment (screenshot_bytes e) ''image/png''
                      [(''Content-Disposition'', ''attachment; filename='' @ image_filename e)],
              flashes = []\<rparr>,
             \<lparr>session = \<lparr>cache_id = None, is_redirect = None\<rparr>,
              SCREENSHOT_CACHE = AList.delete k (SCREENSHOT_CACHE st)\<rparr>)"
    if "cache_id (session st) = Some k" "k \<noteq> []" "map_of (SCREENSHOT_CACHE st) k = Some e"
    using that by (simp add: download_image_def Let_def st s resolves_def)
  have b2: "fst (download_image \<lparr>session = \<lparr>cache_id = None, is_redirect = None\<rparr>,
              SCREENSHOT_CACHE = c'\<rparr>) = \<lparr>body = Redirect ''/'',
               flashes = [(''No image available for download. Please generate an image first.'',
                           ''danger'')]\<rparr>" for c'
    by (simp add: download_image_def Let_def resolves_def)
  have e: "resolves (cache_id (session st)) (SCREENSHOT_CACHE st)
        \<longleftrightarrow> (\<exists>k. cache_id (session st) = Some k \<and> k \<noteq> [] \<and> k \<in> fst ` set (SCREENSHOT_CACHE st))"
    by (cases ci) (auto simp: resolves_def st s map_of_eq_None_iff)
  from a b1 b2 e show ?thesis by (simp add: delete_conv)
qed

theorem download_once_witness:
  "download_image shown =
     (\<lparr>body = Attachment [0x89, 0x50] ''image/png''
               [(''Content-Disposition'', ''attachment; filename=hello_code_image.png'')],
       flashes = []\<rparr>,
      \<lparr>session = \<lparr>cache_id = None, is_redirect = None\<rparr>, SCREENSHOT_CACHE = []\<rparr>)
   \<and> fst (download_image (snd (download_image shown))) =
       \<lparr>body = Redirect ''/'',
        flashes = [(''No image available for download. Please generate an image first.'',
                    ''danger'')]\<rparr>
   \<and> \<not> resolves (cache_id (session stale)) (SCREENSHOT_CACHE stale)
   \<and> download_image stale =
       (\<lparr>body = Redirect ''/'',
         flashes = [(''No image available for download. Please generate an image first.'',
                     ''danger'')]\<rparr>, stale)"
  using download_once [of shown "''1b4e''" hello_entry] download_once [of stale]
  by (simp add: shown_def stale_def hello_entry_def resolves_def download_image_def)

section \<open>Uploading\<close>

text \<open>
  Every POST first removes both session keys and empties the cache; each outcome of the
  handler is stated from that blank state.
\<close>

lemma size_limit_text:
  "''File too large. Maximum size is '' @ str_nat (MAX_CONTENT_LENGTH div 1024) @ '' KB.''
     = ''File too large. Maximum size is 1024 KB.''"
  by (simp add: MAX_CONTENT_LENGTH_def str_nat.simps)

lemma post_clears:
  "st\<lparr>session := (session st)\<lparr>cache_id := None\<rparr>\<rparr>
     \<lparr>session := (session (st\<lparr>session := (session st)\<lparr>cache_id := None\<rparr>\<rparr>))\<lparr>is_redirect := None\<rparr>\<rparr>
     \<lparr>SCREENSHOT_CACHE := []\<rparr> = blank"
  by (cases st, cases "session st") auto

lemma post_missing:
  "map_of files ''code_file'' = None \<Longrightarrow>
   index_post env files st = (form_with ''No file uploaded.'', blank)"
  unfolding index_post_def Let_def post_clears by simp

lemma post_unnamed:
  "map_of files ''code_file'' = Some part \<Longrightarrow> filename part = [] \<Longrightarrow>
   index_post env files st = (form_with ''No file selected.'', blank)"
  unfolding index_post_def Let_def post_clears by simp

lemma post_oversize:
  "map_of files ''code_file'' = Some part \<Longrightarrow> filename part \<noteq> [] \<Longrightarrow>
   MAX_CONTENT_LENGTH < length (stream part) \<Longrightarrow>
   index_post env files st = (form_with ''File too large. Maximum size is 1024 KB.'', blank)"
  unfolding index_post_def Let_def post_clears size_limit_text by simp

lemma post_undecodable:
  "map_of files ''code_file'' = Some part \<Longrightarrow> filename part \<noteq> [] \<Longrightarrow>
   length (stream part) \<le> MAX_CONTENT_LENGTH \<Longrightarrow> decode_utf8 (stream part) = None \<Longrightarrow>
   index_post env files st =
     (form_with ''Invalid file encoding. Please upload a UTF-8 encoded text file.'', blank)"
  unfolding index_post_def Let_def post_clears by simp

lemma post_rendered:
  "map_of files ''code_file'' = Some part \<Longrightarrow> filename part \<noteq> [] \<Longrightarrow>
   length (stream part) \<le> MAX_CONTENT_LENGTH \<Longrightarrow> decode_utf8 (stream part) = Some text \<Longrightarrow>
   generate_screenshot (sync_playwright env) text (secure_filename env (filename part))
     = Inr (png, name) \<Longrightarrow>
   index_post env files st =
     (\<lparr>body = Redirect ''/'', flashes = []\<rparr>,
      \<lparr>session = \<lparr>cache_id = Some (uuid4 env), is_redirect = Some True\<rparr>,
       SCREENSHOT_CACHE = [(uuid4 env, \<lparr>screenshot_bytes = png, image_filename = name\<rparr>)]\<rparr>)"
  unfolding index_post_def Let_def post_clears by simp

lemma post_render_failed:
  "map_of files ''code_file'' = Some part \<Longrightarrow> filename part \<noteq> [] \<Longrightarrow>
   length (stream part) \<le> MAX_CONTENT_LENGTH \<Longrightarrow> decode_utf8 (stream part) = Some text \<Longrightarrow>
   generate_screenshot (sync_playwright env) text (secure_filename env (filename part))
     = Inl (RuntimeError m) \<Longrightarrow>
   index_post env files st = (form_with m, blank)"
  unfolding index_post_def Let_def post_clears by simp

lemma reraise_runtime:
  "\<exists>m. reraise e = RuntimeError m
       \<and> (m = ''Playwright browser binaries are missing. Please ensure 'playwright install' is run during deployment.''
          \<or> m = ''Failed to generate screenshot: '' @ str_exn e)"
  by (cases e) auto

lemma generate_screenshot_raises:
  "generate_screenshot pw text f = Inl x \<Longrightarrow>
   \<exists>e. try_screenshot (pw text) f = Inl e \<and> x = reraise e"
  by (auto simp: generate_screenshot_def split: sum.splits)











section \<open>Errors of the renderer\<close>

text \<open>
  C8.  When the body of \<open>generate_screenshot\<close> raises a Playwright error whose message
  contains "Executable doesn't exist", the function raises a \<open>RuntimeError\<close> saying that
  the browser binaries are missing; for every other exception it raises a \<open>RuntimeError\<close>
  whose message is "Failed to generate screenshot: " followed by the message of the
  exception; the two messages are never equal.  Whatever \<open>generate_screenshot\<close> raises
  during a POST is a \<open>RuntimeError\<close>, and the handler answers with the form and that message
  as the flashed notice, from the blank state.
\<close>

theorem renderer_errors:
  "(try_screenshot (pw text) f = Inl (PlaywrightError m)
      \<and> contains ''Executable doesn't exist'' m
     \<longrightarrow> generate_screenshot pw text f =
           Inl (RuntimeError ''Playwright browser binaries are missing. Please ensure 'playwright install' is run during deployment.''))
   \<and> (try_screenshot (pw text) f = Inl e
      \<and> (\<forall>m'. e = PlaywrightError m' \<longrightarrow> \<not> contains ''Executable doesn't exist'' m')
     \<longrightarrow> generate_screenshot pw text f =
           Inl (RuntimeError (''Failed to generate screenshot: '' @ str_exn e)))
   \<and> ''Playwright browser binaries are missing. Please ensure 'playwright install' is run during deployment.''
        \<noteq> ''Failed to generate screenshot: '' @ m
   \<and> (map_of files ''code_file'' = Some part \<and> filename part \<noteq> []
      \<and> length (stream part) \<le> MAX_CONTENT_LENGTH \<and> decode_utf8 (stream part) = Some code
      \<and> generate_screenshot (sync_playwright env) code (secure_filename env (filename part)) = Inl x
     \<longrightarrow> (\<exists>msg. x = RuntimeError msg
            \<and> index_post env files st =
                (\<lparr>body = RenderTemplate None None None, flashes = [(msg, ''danger'')]\<rparr>, blank)))"
proof -
  have a: "generate_screenshot pw text f =
           Inl (RuntimeError ''Playwright browser binaries are missing. Please ensure 'playwright install' is run during deployment.'')"
    if "try_screenshot (pw text) f = Inl (PlaywrightError m)"
       "contains ''Executable doesn't exist'' m"
    using that by (simp add: generate_screenshot_def)
  have b: "generate_screenshot pw text f =
           Inl (RuntimeError (''Failed to generate screenshot: '' @ str_exn e))"
    if "try_screenshot (pw text) f = Inl e"
       "\<forall>m'. e = PlaywrightError m' \<longrightarrow> \<not> contains ''Executable doesn't exist'' m'"
    using that by (cases e) (simp_all add: generate_screenshot_def)
  have c: "''Playwright browser binaries are missing. Please ensure 'playwright install' is run during deployment.''
        \<noteq> ''Failed to generate screenshot: '' @ m"
    by simp
  have d: "\<exists>msg. x = RuntimeError msg
            \<and> index_post env files st =
                (\<lparr>body = RenderTemplate None None None, flashes = [(msg, ''danger'')]\<rparr>, blank)"
    if h: "map_of files ''code_file'' = Some part" "filename part \<noteq> []"
      "length (stream part) \<le> MAX_CONTENT_LENGTH" "decode_utf8 (stream part) = Some code"
      "generate_screenshot (sync_playwright env) code (secure_filename env (filename part)) = Inl x"
  proof -
    from h(5) obtain e' where "x = reraise e'"
      using generate_screenshot_raises by blast
    with reraise_runtime [of e'] obtain msg where x: "x = RuntimeError msg" by auto
    with h have "index_post env files st = (form_with msg, blank)"
      by (simp add: post_render_failed)
    with x show ?thesis by (simp add: form_with_def)
  qed
  from a b c d show ?thesis by blast
qed

theorem renderer_errors_witness:
  "index_post unprovisioned_env [(''code_file'', hello_file)] shown =
     (\<lparr>body = RenderTemplate None None None,
       flashes = [(''Playwright browser binaries are missing. Please ensure 'playwright install' is run during deployment.'', ''danger'')]\<rparr>,
      blank)
   \<and> index_post hidden_env [(''code_file'', hello_file)] shown =
     (\<lparr>body = RenderTemplate None None None,
       flashes = [(''Failed to generate screenshot: 'NoneType' object is not subscriptable'',
                   ''danger'')]\<rparr>,
      blank)"
proof -
  let ?m = "''BrowserType.launch: Executable doesn't exist at /ms-playwright/webkit/pw_run.sh''"
  let ?o = "OtherException '''NoneType' object is not subscriptable''"
  have t1: "try_screenshot (sync_playwright unprovisioned_env [112, 114, 105, 110, 116]) ''hello.py''
              = Inl (PlaywrightError ?m)"
    by (simp add: unprovisioned_env_def try_screenshot_def)
  have t2: "try_screenshot (sync_playwright hidden_env [112, 114, 105, 110, 116]) ''hello.py'' = Inl ?o"
    by (simp add: hidden_env_def try_screenshot_def)
  have c: "contains ''Executable doesn't exist'' ?m"
    by simp
  have hello: "filename hello_file = ''hello.py''" "length (stream hello_file) \<le> MAX_CONTENT_LENGTH"
    "decode_utf8 (stream hello_file) = Some [112, 114, 105, 110, 116]"
    by (simp_all add: hello_file_def MAX_CONTENT_LENGTH_def)
  have s: "secure_filename unprovisioned_env ''hello.py'' = ''hello.py''"
    "secure_filename hidden_env ''hello.py'' = ''hello.py''"
    by (simp_all add: unprovisioned_env_def hidden_env_def)
  note r1 = renderer_errors [of "sync_playwright unprovisioned_env" "[112, 114, 105, 110, 116]"
       "''hello.py''" ?m "PlaywrightError ?m" "[(''code_file'', hello_file)]" hello_file
       "[112, 114, 105, 110, 116]" unprovisioned_env
       "RuntimeError ''Playwright browser binaries are missing. Please ensure 'playwright install' is run during deployment.''"
       shown]
  note r2 = renderer_errors [of "sync_playwright hidden_env" "[112, 114, 105, 110, 116]"
       "''hello.py''" "[]" ?o "[(''code_file'', hello_file)]" hello_file
       "[112, 114, 105, 110, 116]" hidden_env
       "RuntimeError ''Failed to generate screenshot: 'NoneType' object is not subscriptable''"
       shown]
  from r1 t1 c hello s have
    "index_post unprovisioned_env [(''code_file'', hello_file)] shown =
     (\<lparr>body = RenderTemplate None None None,
       flashes = [(''Playwright browser binaries are missing. Please ensure 'playwright install' is run during deployment.'', ''danger'')]\<rparr>,
      blank)"
    by simp
  moreover from r2 t2 hello s have
    "index_post hidden_env [(''code_file'', hello_file)] shown =
     (\<lparr>body = RenderTemplate None None None,
       flashes = [(''Failed to generate screenshot: 'NoneType' object is not subscriptable'',
                   ''danger'')]\<rparr>,
      blank)"
    by simp
  ultimately show ?thesis by simp
qed

section \<open>The suggested filename\<close>

lemma generate_screenshot_name:
  "generate_screenshot pw text f = Inr (png, name) \<Longrightarrow>
   name = rsplit1 CHR ''.'' f ! 0 @ ''_code_image.png''"
  by (auto simp: generate_screenshot_def try_screenshot_def split: sum.splits option.splits)


text \<open>
  C7.  After a successful upload the cache holds one entry, under the new identifier, whose
  filename is a stem followed by \<open>_code_image.png\<close>, where the stem is the sanitized
  filename up to, and without, its last dot (the whole sanitized filename when it has no
  dot).  So the suggested filename always ends in \<open>_code_image.png\<close>.
\<close>

theorem output_filename:
  assumes "map_of files ''code_file'' = Some part" and "filename part \<noteq> []"
    and "length (stream part) \<le> MAX_CONTENT_LENGTH"
    and "decode_utf8 (stream part) = Some code"
    and "generate_screenshot (sync_playwright env) code (secure_filename env (filename part))
           = Inr (png, name)"
  shows "SCREENSHOT_CACHE (snd (index_post env files st))
           = [(uuid4 env, \<lparr>screenshot_bytes = png, image_filename = name\<rparr>)]
   \<and> (\<exists>stem. name = stem @ ''_code_image.png''
         \<and> ((\<exists>ext. secure_filename env (filename part) = stem @ CHR ''.'' # ext
                   \<and> CHR ''.'' \<notin> set ext)
            \<or> (secure_filename env (filename part) = stem
                \<and> CHR ''.'' \<notin> set (secure_filename env (filename part)))))
   \<and> suffix ''_code_image.png'' name"
proof -
  let ?san = "secure_filename env (filename part)"
  from assms(5) have name: "name = rsplit1 CHR ''.'' ?san ! 0 @ ''_code_image.png''"
    by (rule generate_screenshot_name)
  have stored: "SCREENSHOT_CACHE (snd (index_post env files st))
           = [(uuid4 env, \<lparr>screenshot_bytes = png, image_filename = name\<rparr>)]"
    using assms by (simp add: post_rendered)
  have stem: "\<exists>stem. name = stem @ ''_code_image.png''
         \<and> ((\<exists>ext. ?san = stem @ CHR ''.'' # ext \<and> CHR ''.'' \<notin> set ext)
            \<or> (?san = stem \<and> CHR ''.'' \<notin> set ?san))"
    using rsplit1_stem [of ?san "CHR ''.''"] name by blast
  have "suffix ''_code_image.png'' name"
    unfolding name by (rule suffixI) simp
  with stored stem show ?thesis by blast
qed

theorem output_filename_witness:
  "SCREENSHOT_CACHE (snd (index_post plain_env [(''code_file'', tar_file)] shown))
     = [(''1b4e'', \<lparr>screenshot_bytes = [0x89, 0x50], image_filename = ''app.tar_code_image.png''\<rparr>)]
   \<and> secure_filename plain_env (filename tar_file) = ''app.tar'' @ CHR ''.'' # ''gz''
   \<and> suffix ''_code_image.png'' ''app.tar_code_image.png''"
proof -
  have tar: "filename tar_file \<noteq> []" "length (stream tar_file) \<le> MAX_CONTENT_LENGTH"
    "decode_utf8 (stream tar_file) = Some [97]"
    "secure_filename plain_env (filename tar_file) = ''app.tar.gz''"
    by (simp_all add: tar_file_def MAX_CONTENT_LENGTH_def plain_env_def)
  have g: "generate_screenshot (sync_playwright plain_env) [97] ''app.tar.gz''
             = Inr ([0x89, 0x50], ''app.tar_code_image.png'')"
    by (simp add: plain_env_def generate_screenshot_def try_screenshot_def wide_page_def
          viewport_size_def rsplit1_def)
  have u: "uuid4 plain_env = ''1b4e''" by (simp add: plain_env_def)
  show ?thesis
    using output_filename [of "[(''code_file'', tar_file)]" tar_file "[97]" plain_env
            "[0x89, 0x50]" "''app.tar_code_image.png''" shown] tar g u
    by simp
qed

text \<open>
  C10.  The stored filename is computed from the sanitized filename, not from the uploaded
  one.  A sanitized filename without a dot is kept whole and followed by
  \<open>_code_image.png\<close>; when the uploaded filename is not empty but sanitizes to the empty
  string, the upload still succeeds and the stored filename is \<open>_code_image.png\<close> alone.
\<close>

theorem sanitized_filename_edge_cases:
  assumes "map_of files ''code_file'' = Some part" and "filename part \<noteq> []"
    and "length (stream part) \<le> MAX_CONTENT_LENGTH"
    and "decode_utf8 (stream part) = Some code"
    and "generate_screenshot (sync_playwright env) code (secure_filename env (filename part))
           = Inr (png, name)"
  shows "body (fst (index_post env files st)) = Redirect ''/''
   \<and> map_of (SCREENSHOT_CACHE (snd (index_post env files st))) (uuid4 env)
        = Some \<lparr>screenshot_bytes = png, image_filename = name\<rparr>
   \<and> name = rsplit1 CHR ''.'' (secure_filename env (filename part)) ! 0 @ ''_code_image.png''
   \<and> (CHR ''.'' \<notin> set (secure_filename env (filename part))
        \<longrightarrow> name = secure_filename env (filename part) @ ''_code_image.png'')
   \<and> (secure_filename env (filename part) = [] \<longrightarrow> name = ''_code_image.png'')"
proof -
  let ?san = "secure_filename env (filename part)"
  from assms(5) have name: "name = rsplit1 CHR ''.'' ?san ! 0 @ ''_code_image.png''"
    by (rule generate_screenshot_name)
  have post: "index_post env files st =
     (\<lparr>body = Redirect ''/'', flashes = []\<rparr>,
      \<lparr>session = \<lparr>cache_id = Some (uuid4 env), is_redirect = Some True\<rparr>,
       SCREENSHOT_CACHE = [(uuid4 env, \<lparr>screenshot_bytes = png, image_filename = name\<rparr>)]\<rparr>)"
    using assms by (rule post_rendered)
  have nodot: "name = ?san @ ''_code_image.png''" if "CHR ''.'' \<notin> set ?san"
    using that name by (simp add: rsplit1_none)
  have empty: "name = ''_code_image.png''" if "?san = []"
    using that name by (simp add: rsplit1_none)
  from name post nodot empty show ?thesis by simp
qed

theorem sanitized_filename_edge_cases_witness:
  "filename slash_file \<noteq> [] \<and> secure_filename plain_env (filename slash_file) = []
   \<and> index_post plain_env [(''code_file'', slash_file)] shown =
       (\<lparr>body = Redirect ''/'', flashes = []\<rparr>,
        \<lparr>session = \<lparr>cache_id = Some ''1b4e'', is_redirect = Some True\<rparr>,
         SCREENSHOT_CACHE =
           [(''1b4e'', \<lparr>screenshot_bytes = [0x89, 0x50], image_filename = ''_code_image.png''\<rparr>)]\<rparr>)
   \<and> CHR ''.'' \<notin> set (secure_filename plain_env (filename make_file))
   \<and> map_of (SCREENSHOT_CACHE (snd (index_post plain_env [(''code_file'', make_file)] shown))) ''1b4e''
       = Some \<lparr>screenshot_bytes = [0x89, 0x50], image_filename = ''Makefile_code_image.png''\<rparr>"
proof -
  have slash: "filename slash_file \<noteq> []" "length (stream slash_file) \<le> MAX_CONTENT_LENGTH"
    "decode_utf8 (stream slash_file) = Some [112, 114, 105, 110, 116]"
    "secure_filename plain_env (filename slash_file) = []"
    by (simp_all add: slash_file_def MAX_CONTENT_LENGTH_def plain_env_def)
  have make: "filename make_file \<noteq> []" "length (stream make_file) \<le> MAX_CONTENT_LENGTH"
    "decode_utf8 (stream make_file) = Some [97, 108, 108, 58]"
    "secure_filename plain_env (filename make_file) = ''Makefile''"
    by (simp_all add: make_file_def MAX_CONTENT_LENGTH_def plain_env_def)
  have g1: "generate_screenshot (sync_playwright plain_env) [112, 114, 105, 110, 116] []
             = Inr ([0x89, 0x50], ''_code_image.png'')"
    by (simp add: plain_env_def generate_screenshot_def try_screenshot_def wide_page_def
          viewport_size_def rsplit1_def)
  have g2: "generate_screenshot (sync_playwright plain_env) [97, 108, 108, 58] ''Makefile''
             = Inr ([0x89, 0x50], ''Makefile_code_image.png'')"
    by (simp add: plain_env_def generate_screenshot_def try_screenshot_def wide_page_def
          viewport_size_def rsplit1_def)
  have u: "uuid4 plain_env = ''1b4e''" by (simp add: plain_env_def)
  have p1: "index_post plain_env [(''code_file'', slash_file)] shown =
       (\<lparr>body = Redirect ''/'', flashes = []\<rparr>,
        \<lparr>session = \<lparr>cache_id = Some ''1b4e'', is_redirect = Some True\<rparr>,
         SCREENSHOT_CACHE =
           [(''1b4e'', \<lparr>screenshot_bytes = [0x89, 0x50], image_filename = ''_code_image.png''\<rparr>)]\<rparr>)"
    using slash g1 u by (simp add: post_rendered)
  show ?thesis
    using sanitized_filename_edge_cases [of "[(''code_file'', slash_file)]" slash_file
            "[112, 114, 105, 110, 116]" plain_env "[0x89, 0x50]" "''_code_image.png''" shown]
          sanitized_filename_edge_cases [of "[(''code_file'', make_file)]" make_file
            "[97, 108, 108, 58]" plain_env "[0x89, 0x50]" "''Makefile_code_image.png''" shown]
          slash make g1 g2 u p1
    by simp
qed

section \<open>The cache holds at most one entry\<close>

lemma post_from_blank: "index_post env files st = index_post env files blank"
  unfolding index_post_def Let_def post_clears by (rule refl)

lemma post_cache_single: "length (SCREENSHOT_CACHE (snd (index_post env files st))) \<le> 1"
proof (cases "map_of files ''code_file''")
  case None
  then show ?thesis by (simp add: post_missing)
next
  case (Some part)
  show ?thesis
  proof (cases "filename part = []")
    case True
    with Some show ?thesis by (simp add: post_unnamed)
  next
    case named: False
    show ?thesis
    proof (cases "MAX_CONTENT_LENGTH < length (stream part)")
      case True
      with Some named show ?thesis by (simp add: post_oversize)
    next
      case small: False
      show ?thesis
      proof (cases "decode_utf8 (stream part)")
        case None
        with Some named small show ?thesis by (simp add: post_undecodable)
      next
        case code: (Some code)
        show ?thesis
        proof (cases "generate_screenshot (sync_playwright env) code
                        (secure_filename env (filename part))")
          case (Inl x)
          then obtain e where "x = reraise e"
            using generate_screenshot_raises by blast
          with reraise_runtime [of e] obtain msg where "x = RuntimeError msg" by auto
          with Some named small code Inl show ?thesis by (simp add: post_render_failed)
        next
          case (Inr r)
          obtain png name where "r = (png, name)" by (cases r)
          with Some named small code Inr show ?thesis
            by (simp add: post_rendered [of files part code env png name st])
        qed
      qed
    qed
  qed
qed

lemma handle_single:
  assumes "length (SCREENSHOT_CACHE st) \<le> 1"
  shows "length (SCREENSHOT_CACHE (snd (handle rq st))) \<le> 1"
proof (cases rq)
  case GET_index
  with assms show ?thesis by (simp add: index_get_def Let_def)
next
  case (POST_index env files)
  then show ?thesis by (simp add: post_cache_single del: One_nat_def)
next
  case GET_download
  have "length (AList.delete k (SCREENSHOT_CACHE st)) \<le> length (SCREENSHOT_CACHE st)" for k
    by (rule length_delete_le)
  then have "length (AList.delete k (SCREENSHOT_CACHE st)) \<le> 1" for k
    using assms by (rule order_trans)
  with assms GET_download show ?thesis
    by (simp add: download_image_def Let_def del: One_nat_def)
qed

lemma serve_single:
  assumes "length (store sv) \<le> 1"
  shows "length (store (serve sv vr)) \<le> 1"
proof -
  from assms have "length (SCREENSHOT_CACHE \<lparr>session = cookies sv (fst vr), SCREENSHOT_CACHE = store sv\<rparr>) \<le> 1"
    by simp
  then have "length (SCREENSHOT_CACHE (snd (handle (snd vr)
                \<lparr>session = cookies sv (fst vr), SCREENSHOT_CACHE = store sv\<rparr>))) \<le> 1"
    by (rule handle_single)
  then show ?thesis by (simp add: serve_def Let_def)
qed

lemma run_single:
  "length (store sv) \<le> 1 \<Longrightarrow> length (store (foldl serve sv reqs)) \<le> 1"
proof (induction reqs arbitrary: sv)
  case Nil
  then show ?case by simp
next
  case (Cons r reqs)
  from Cons.prems have "length (store (serve sv r)) \<le> 1" by (rule serve_single)
  then have "length (store (foldl serve (serve sv r) reqs)) \<le> 1" by (rule Cons.IH)
  then show ?case by simp
qed

text \<open>
  C1.  Whatever requests the server has completed since it started, from whichever
  visitors, the cache holds at most one entry.  The outcome of a POST never depends on the
  cache and the session keys it found: it is the outcome from the blank state, and it
  leaves at most one entry.  After two successful uploads in a row, by the same visitor or
  by two, the first upload's entry was resident after the first, the cache then holds
  exactly the second upload's entry, the first identifier (when it differs from the second)
  no longer resolves, and the second visitor can display and download the second image.
\<close>

theorem single_slot_cache:
  "length (store (foldl serve boot reqs)) \<le> 1
   \<and> index_post env files st = index_post env files blank
   \<and> length (SCREENSHOT_CACHE (snd (index_post env files st))) \<le> 1
   \<and> (map_of files1 ''code_file'' = Some part1 \<and> filename part1 \<noteq> []
        \<and> length (stream part1) \<le> MAX_CONTENT_LENGTH \<and> decode_utf8 (stream part1) = Some code1
        \<and> generate_screenshot (sync_playwright env1) code1 (secure_filename env1 (filename part1))
             = Inr (png1, name1)
        \<and> map_of files2 ''code_file'' = Some part2 \<and> filename part2 \<noteq> []
        \<and> length (stream part2) \<le> MAX_CONTENT_LENGTH \<and> decode_utf8 (stream part2) = Some code2
        \<and> generate_screenshot (sync_playwright env2) code2 (secure_filename env2 (filename part2))
             = Inr (png2, name2)
        \<and> uuid4 env2 \<noteq> []
      \<longrightarrow> map_of (store (serve sv (v1, POST_index env1 files1))) (uuid4 env1)
             = Some \<lparr>screenshot_bytes = png1, image_filename = name1\<rparr>
          \<and> store (foldl serve sv [(v1, POST_index env1 files1), (v2, POST_index env2 files2)])
             = [(uuid4 env2, \<lparr>screenshot_bytes = png2, image_filename = name2\<rparr>)]
          \<and> (uuid4 env1 \<noteq> uuid4 env2 \<longrightarrow>
               map_of (store (foldl serve sv
                         [(v1, POST_index env1 files1), (v2, POST_index env2 files2)]))
                 (uuid4 env1) = None)
          \<and> answer (foldl serve sv [(v1, POST_index env1 files1), (v2, POST_index env2 files2)])
               (v2, GET_index)
             = \<lparr>body = RenderTemplate (Some png2) (Some name2) (Some (uuid4 env2)), flashes = []\<rparr>
          \<and> answer (foldl serve sv [(v1, POST_index env1 files1), (v2, POST_index env2 files2)])
               (v2, GET_download)
             = \<lparr>body = Attachment png2 ''image/png''
                        [(''Content-Disposition'', ''attachment; filename='' @ name2)],
                flashes = []\<rparr>)"
proof -
  have a: "length (store (foldl serve boot reqs)) \<le> 1"
    by (rule run_single) (simp add: boot_def)
  have c: "map_of (store (serve sv (v1, POST_index env1 files1))) (uuid4 env1)
             = Some \<lparr>screenshot_bytes = png1, image_filename = name1\<rparr>
          \<and> store (foldl serve sv [(v1, POST_index env1 files1), (v2, POST_index env2 files2)])
             = [(uuid4 env2, \<lparr>screenshot_bytes = png2, image_filename = name2\<rparr>)]
          \<and> (uuid4 env1 \<noteq> uuid4 env2 \<longrightarrow>
               map_of (store (foldl serve sv
                         [(v1, POST_index env1 files1), (v2, POST_index env2 files2)]))
                 (uuid4 env1) = None)
          \<and> answer (foldl serve sv [(v1, POST_index env1 files1), (v2, POST_index env2 files2)])
               (v2, GET_index)
             = \<lparr>body = RenderTemplate (Some png2) (Some name2) (Some (uuid4 env2)), flashes = []\<rparr>
          \<and> answer (foldl serve sv [(v1, POST_index env1 files1), (v2, POST_index env2 files2)])
               (v2, GET_download)
             = \<lparr>body = Attachment png2 ''image/png''
                        [(''Content-Disposition'', ''attachment; filename='' @ name2)],
                flashes = []\<rparr>"
    if h1: "map_of files1 ''code_file'' = Some part1" "filename part1 \<noteq> []"
        "length (stream part1) \<le> MAX_CONTENT_LENGTH" "decode_utf8 (stream part1) = Some code1"
        "generate_screenshot (sync_playwright env1) code1 (secure_filename env1 (filename part1))
             = Inr (png1, name1)"
      and h2: "map_of files2 ''code_file'' = Some part2" "filename part2 \<noteq> []"
        "length (stream part2) \<le> MAX_CONTENT_LENGTH" "decode_utf8 (stream part2) = Some code2"
        "generate_screenshot (sync_playwright env2) code2 (secure_filename env2 (filename part2))
             = Inr (png2, name2)"
      and u: "uuid4 env2 \<noteq> []"
  proof -
    note p1 = post_rendered [OF h1]
    note p2 = post_rendered [OF h2]
    have s1: "store (serve sv (v1, POST_index env1 files1))
                = [(uuid4 env1, \<lparr>screenshot_bytes = png1, image_filename = name1\<rparr>)]"
      by (simp add: serve_def Let_def p1)
    have s2: "foldl serve sv [(v1, POST_index env1 files1), (v2, POST_index env2 files2)]
                = \<lparr>cookies = (cookies (serve sv (v1, POST_index env1 files1)))
                     (v2 := \<lparr>cache_id = Some (uuid4 env2), is_redirect = Some True\<rparr>),
                   store = [(uuid4 env2, \<lparr>screenshot_bytes = png2, image_filename = name2\<rparr>)]\<rparr>"
      by (simp add: serve_def [of "serve sv (v1, POST_index env1 files1)"] Let_def p2)
    show ?thesis
      unfolding s2 using u
      by (simp add: s1 answer_def index_get_def download_image_def resolves_def Let_def)
  qed
  from a post_from_blank [of env files st] post_cache_single [of env files st] c show ?thesis by blast
qed


theorem single_slot_cache_witness:
  "uuid4 second_env \<noteq> []
   \<and> map_of (store (serve boot (0, POST_index plain_env [(''code_file'', hello_file)]))) ''1b4e''
       = Some \<lparr>screenshot_bytes = [0x89, 0x50], image_filename = ''hello_code_image.png''\<rparr>
   \<and> store (foldl serve boot
         [(0, POST_index plain_env [(''code_file'', hello_file)]),
          (1, POST_index second_env [(''code_file'', make_file)])])
       = [(''9f3c'', \<lparr>screenshot_bytes = [0x89, 0x4E, 0x47],
                      image_filename = ''Makefile_code_image.png''\<rparr>)]
   \<and> map_of (store (foldl serve boot
         [(0, POST_index plain_env [(''code_file'', hello_file)]),
          (1, POST_index second_env [(''code_file'', make_file)])])) ''1b4e'' = None
   \<and> answer (foldl serve boot
         [(0, POST_index plain_env [(''code_file'', hello_file)]),
          (1, POST_index second_env [(''code_file'', make_file)])]) (1, GET_download)
       = \<lparr>body = Attachment [0x89, 0x4E, 0x47] ''image/png''
                  [(''Content-Disposition'', ''attachment; filename=Makefile_code_image.png'')],
          flashes = []\<rparr>"
proof -
  have hello: "filename hello_file \<noteq> []" "length (stream hello_file) \<le> MAX_CONTENT_LENGTH"
    "decode_utf8 (stream hello_file) = Some [112, 114, 105, 110, 116]"
    "secure_filename plain_env (filename hello_file) = ''hello.py''"
    by (simp_all add: hello_file_def MAX_CONTENT_LENGTH_def plain_env_def)
  have make: "filename make_file \<noteq> []" "length (stream make_file) \<le> MAX_CONTENT_LENGTH"
    "decode_utf8 (stream make_file) = Some [97, 108, 108, 58]"
    "secure_filename second_env (filename make_file) = ''Makefile''"
    by (simp_all add: make_file_def MAX_CONTENT_LENGTH_def second_env_def)
  have g1: "generate_screenshot (sync_playwright plain_env) [112, 114, 105, 110, 116] ''hello.py''
             = Inr ([0x89, 0x50], ''hello_code_image.png'')"
    by (simp add: plain_env_def generate_screenshot_def try_screenshot_def wide_page_def
          viewport_size_def rsplit1_def)
  have g2: "generate_screenshot (sync_playwright second_env) [97, 108, 108, 58] ''Makefile''
             = Inr ([0x89, 0x4E, 0x47], ''Makefile_code_image.png'')"
    by (simp add: second_env_def generate_screenshot_def try_screenshot_def
          viewport_size_def rsplit1_def)
  have u: "uuid4 plain_env = ''1b4e''" "uuid4 second_env = ''9f3c''"
    by (simp_all add: plain_env_def second_env_def)
  show ?thesis
    using single_slot_cache [where ?files1.0 = "[(''code_file'', hello_file)]"
            and ?part1.0 = hello_file and ?code1.0 = "[112, 114, 105, 110, 116]"
            and ?env1.0 = plain_env and ?png1.0 = "[0x89, 0x50]"
            and ?name1.0 = "''hello_code_image.png''"
            and ?files2.0 = "[(''code_file'', make_file)]"
            and ?part2.0 = make_file and ?code2.0 = "[97, 108, 108, 58]"
            and ?env2.0 = second_env and ?png2.0 = "[0x89, 0x4E, 0x47]"
            and ?name2.0 = "''Makefile_code_image.png''"
            and sv = boot and ?v1.0 = 0 and ?v2.0 = 1]
          hello make g1 g2 u
    by simp
qed

end
